theory Spec2Isabelle
  imports Complex_Main "HOL-Library.Word"
begin

unbundle bit_operations_syntax

section \<open>Colours (engine/graphics/tools/colors.pxd)\<close>

text \<open>
  \<^verbatim>\<open>uint32\<close> and \<^verbatim>\<open>uint8\<close> are C's unsigned 32-bit and 8-bit integers.  In the C
  expressions of \<^verbatim>\<open>blend_colors\<close> every \<^verbatim>\<open>uint8\<close> operand is promoted to a 32-bit
  integer before it is multiplied, added or shifted; the result is cut to 8 bits only
  when it is stored in a \<^verbatim>\<open>uint8\<close> variable.  The model therefore computes in
  \<open>32 word\<close> and narrows with \<open>ucast\<close> exactly where the source assigns to a
  \<^verbatim>\<open>uint8\<close>.
\<close>

type_synonym uint32 = "32 word"
type_synonym uint8 = "8 word"

definition pack_rgba :: "uint8 \<Rightarrow> uint8 \<Rightarrow> uint8 \<Rightarrow> uint8 \<Rightarrow> uint32" where
  "pack_rgba r g b a =
     push_bit 24 (ucast a) OR push_bit 16 (ucast r) OR push_bit 8 (ucast g) OR ucast b"

text \<open>\<^verbatim>\<open>unpack_rgba\<close> writes through four pointers; the model returns \<open>(r, g, b, a)\<close>.\<close>

definition unpack_rgba :: "uint32 \<Rightarrow> uint8 \<times> uint8 \<times> uint8 \<times> uint8" where
  "unpack_rgba color =
     (ucast (drop_bit 16 color AND 0xFF), ucast (drop_bit 8 color AND 0xFF),
      ucast (color AND 0xFF), ucast (drop_bit 24 color AND 0xFF))"

definition blend_colors :: "uint32 \<Rightarrow> uint32 \<Rightarrow> uint32" where
  "blend_colors src dst =
     (if drop_bit 24 src = 0 then dst
      else if drop_bit 24 src = 255 then src
      else
        (case unpack_rgba src of (sr, sg, sb, sa) \<Rightarrow>
         case unpack_rgba dst of (dr, dg, db, da) \<Rightarrow>
           let inv_a = (255 - ucast sa :: uint32);
               out_r = (ucast (drop_bit 8 (ucast sr * ucast sa + ucast dr * inv_a)) :: uint8);
               out_g = (ucast (drop_bit 8 (ucast sg * ucast sa + ucast dg * inv_a)) :: uint8);
               out_b = (ucast (drop_bit 8 (ucast sb * ucast sa + ucast db * inv_a)) :: uint8);
               out_a = (ucast (ucast sa + drop_bit 8 (ucast da * inv_a)) :: uint8)
           in pack_rgba out_r out_g out_b out_a))"

section \<open>The framebuffer\<close>

text \<open>
  A framebuffer is a typed memoryview \<^verbatim>\<open>uint32[:, :]\<close> addressed \<^verbatim>\<open>buffer[x, y]\<close>;
  \<open>shape0\<close> and \<open>shape1\<close> are \<^verbatim>\<open>buffer.shape[0]\<close> (the width) and
  \<^verbatim>\<open>buffer.shape[1]\<close> (the height).  Every module is compiled with
  \<^verbatim>\<open>boundscheck=False\<close> and \<^verbatim>\<open>wraparound=False\<close>, so an indexed store is a raw memory
  write whatever the index is.  The model keeps the cells as a total function on integer
  coordinates and records, in \<open>written\<close>, the coordinate of every store that was
  executed (most recent first); \<open>written\<close> is the only component that is not data of the
  program.

  C's \<^verbatim>\<open>int\<close> has 32 bits.  The model keeps an \<^verbatim>\<open>int\<close> as a mathematical integer
  and applies \<open>wrap32\<close>, the reduction to the two's-complement range
  \<open>-2\<^sup>3\<^sup>1 \<le> n < 2\<^sup>3\<^sup>1\<close>, to the result of every addition, subtraction, multiplication,
  negation and \<^verbatim>\<open>abs\<close> on \<^verbatim>\<open>int\<close>s and to every conversion of a \<^verbatim>\<open>Py_ssize_t\<close> to
  \<^verbatim>\<open>int\<close>.  This is what the compiled code computes on a two's-complement machine; the C
  standard itself leaves an overflowing signed operation undefined.  The arguments of an
  entry point are \<^verbatim>\<open>int\<close>s already (Cython raises \<^verbatim>\<open>OverflowError\<close> before the call for
  a Python integer that does not fit), so they are taken from that range.
\<close>

definition wrap32 :: "int \<Rightarrow> int" where
  "wrap32 n = (n + 2 ^ 31) mod 2 ^ 32 - 2 ^ 31"

record framebuffer =
  shape0 :: int
  shape1 :: int
  cells :: "int \<times> int \<Rightarrow> uint32"
  written :: "(int \<times> int) list"

definition buffer_set :: "framebuffer \<Rightarrow> int \<Rightarrow> int \<Rightarrow> uint32 \<Rightarrow> framebuffer" where
  "buffer_set fb x y c = fb\<lparr>cells := (cells fb)((x, y) := c), written := (x, y) # written fb\<rparr>"

text \<open>\<^verbatim>\<open>buffer[x, y] = blend_colors(color, buffer[x, y])\<close>, the store every primitive ends in.\<close>

definition blend_at :: "framebuffer \<Rightarrow> int \<Rightarrow> int \<Rightarrow> uint32 \<Rightarrow> framebuffer" where
  "blend_at fb x y color = buffer_set fb x y (blend_colors color (cells fb (x, y)))"

text \<open>\<^verbatim>\<open>for i in range(a, b): body\<close> over a state.\<close>

definition for_range :: "int \<Rightarrow> int \<Rightarrow> (int \<Rightarrow> 's \<Rightarrow> 's) \<Rightarrow> 's \<Rightarrow> 's" where
  "for_range a b body s = fold body [a..b - 1] s"

section \<open>Rectangles\<close>

definition rasterize_rect_filled_c ::
  "framebuffer \<Rightarrow> int \<Rightarrow> int \<Rightarrow> int \<Rightarrow> int \<Rightarrow> uint32 \<Rightarrow> framebuffer" where
  "rasterize_rect_filled_c buffer x0 y0 w0 h0 color =
     (let buf_w = wrap32 (shape0 buffer); buf_h = wrap32 (shape1 buffer);
          (x, w) = (if x0 < 0 then (0, wrap32 (w0 + x0)) else (x0, w0));
          (y, h) = (if y0 < 0 then (0, wrap32 (h0 + y0)) else (y0, h0));
          w = (if wrap32 (x + w) > buf_w then wrap32 (buf_w - x) else w);
          h = (if wrap32 (y + h) > buf_h then wrap32 (buf_h - y) else h)
      in if w \<le> 0 \<or> h \<le> 0 then buffer
         else
           let alpha = drop_bit 24 color AND 0xFF
           in if alpha = 255 then
                for_range x (wrap32 (x + w))
                  (\<lambda>i. for_range y (wrap32 (y + h)) (\<lambda>j b. buffer_set b i j color)) buffer
              else if alpha > 0 then
                for_range x (wrap32 (x + w))
                  (\<lambda>i. for_range y (wrap32 (y + h)) (\<lambda>j b. blend_at b i j color)) buffer
              else buffer)"

definition fill_rect :: "framebuffer \<Rightarrow> int \<Rightarrow> int \<Rightarrow> int \<Rightarrow> int \<Rightarrow> uint32 \<Rightarrow> framebuffer" where
  "fill_rect buffer x y w h color = rasterize_rect_filled_c buffer x y w h color"

section \<open>Lines\<close>

text \<open>
  The \<^verbatim>\<open>while True\<close> loop of \<^verbatim>\<open>rasterize_line_c\<close>; \<open>w\<close> and \<open>h\<close> are the two shapes
  converted to \<^verbatim>\<open>int\<close>.  The loop has no bound of its own, so it is a partial function:
  \<open>None\<close> stands for a loop that never reaches its \<^verbatim>\<open>break\<close>.
\<close>

partial_function (option) line_loop ::
  "framebuffer \<Rightarrow> int \<Rightarrow> int \<Rightarrow> int \<Rightarrow> int \<Rightarrow> int \<Rightarrow> int \<Rightarrow> int \<Rightarrow> int \<Rightarrow> int \<Rightarrow> int \<Rightarrow> int \<Rightarrow> uint32
     \<Rightarrow> framebuffer option" where
  "line_loop buffer w h x0 y0 x1 y1 dx dy sx sy err color =
     (let buffer' = (if 0 \<le> x0 \<and> x0 < w \<and> 0 \<le> y0 \<and> y0 < h
                     then blend_at buffer x0 y0 color else buffer)
      in if x0 = x1 \<and> y0 = y1 then Some buffer'
         else
           let e2 = wrap32 (2 * err);
               err' = (if e2 > wrap32 (- dy) then wrap32 (err - dy) else err);
               x0' = (if e2 > wrap32 (- dy) then wrap32 (x0 + sx) else x0);
               err'' = (if e2 < dx then wrap32 (err' + dx) else err');
               y0' = (if e2 < dx then wrap32 (y0 + sy) else y0)
           in line_loop buffer' w h x0' y0' x1 y1 dx dy sx sy err'' color)"

definition rasterize_line_c ::
  "framebuffer \<Rightarrow> int \<Rightarrow> int \<Rightarrow> int \<Rightarrow> int \<Rightarrow> uint32 \<Rightarrow> framebuffer option" where
  "rasterize_line_c buffer x0 y0 x1 y1 color =
     (let w = wrap32 (shape0 buffer); h = wrap32 (shape1 buffer);
          dx = wrap32 \<bar>wrap32 (x1 - x0)\<bar>; dy = wrap32 \<bar>wrap32 (y1 - y0)\<bar>;
          sx = (if x0 < x1 then 1 else - 1);
          sy = (if y0 < y1 then 1 else - 1);
          err = wrap32 (dx - dy)
      in line_loop buffer w h x0 y0 x1 y1 dx dy sx sy err color)"

definition draw_line ::
  "framebuffer \<Rightarrow> int \<Rightarrow> int \<Rightarrow> int \<Rightarrow> int \<Rightarrow> uint32 \<Rightarrow> framebuffer option" where
  "draw_line buffer x0 y0 x1 y1 color = rasterize_line_c buffer x0 y0 x1 y1 color"

section \<open>Floating-point numbers and errors\<close>

text \<open>
  A finite C \<^verbatim>\<open>double\<close> or \<^verbatim>\<open>float\<close> is modelled by the real number it denotes, and a
  floating-point operation by the exact operation on reals followed by a rounding
  function, which the modelled functions take as a parameter.  With \<open>exact\<close> for the
  rounding this is arithmetic without rounding error; with \<open>round_binary64\<close>
  (\<open>round_binary32\<close>) it is IEEE 754 double (single) precision in round-to-nearest-even,
  subnormal numbers included.  Negation and comparisons are exact.  Infinities and NaN
  are not modelled: a result beyond the largest finite number is rounded like any other
  real, and the quotient by zero is HOL's \<open>0\<close>.
\<close>

type_synonym rounding = "real \<Rightarrow> real"

definition exact :: rounding where
  "exact x = x"

text \<open>The number of binary digits of a positive integer.\<close>

function bit_length :: "int \<Rightarrow> int" where
  "bit_length n = (if n \<le> 0 then 0 else 1 + bit_length (n div 2))"
  by pat_completeness auto
termination
  by (relation "measure nat") auto

declare bit_length.simps [simp del]

text \<open>The exponent \<open>e\<close> with \<open>2^e \<le> |x| < 2^(e+1)\<close>, for \<open>x \<noteq> 0\<close>.\<close>

definition binary_exponent :: "real \<Rightarrow> int" where
  "binary_exponent x =
     (if \<bar>x\<bar> \<ge> 1 then bit_length \<lfloor>\<bar>x\<bar>\<rfloor> - 1
      else - bit_length (\<lceil>1 / \<bar>x\<bar>\<rceil> - 1))"

definition round_half_even :: "real \<Rightarrow> int" where
  "round_half_even q =
     (let f = \<lfloor>q\<rfloor>; r = q - of_int f
      in if r < 1 / 2 then f else if r > 1 / 2 then f + 1 else if even f then f else f + 1)"

text \<open>
  Rounding to the nearest number with a significand of \<open>p\<close> bits, ties to even; the
  spacing of the numbers never falls below \<open>2^emin\<close>, which is where the subnormal
  numbers lie.
\<close>

definition round_nearest_even :: "nat \<Rightarrow> int \<Rightarrow> rounding" where
  "round_nearest_even p emin x =
     (if x = 0 then 0
      else let e = max (binary_exponent x - (int p - 1)) emin
           in of_int (round_half_even (x / 2 powi e)) * 2 powi e)"

definition round_binary64 :: rounding where
  "round_binary64 x = round_nearest_even 53 (- 1074) x"

definition round_binary32 :: rounding where
  "round_binary32 x = round_nearest_even 24 (- 149) x"

definition fl_add :: "rounding \<Rightarrow> real \<Rightarrow> real \<Rightarrow> real" where
  "fl_add rnd a b = rnd (a + b)"

definition fl_sub :: "rounding \<Rightarrow> real \<Rightarrow> real \<Rightarrow> real" where
  "fl_sub rnd a b = rnd (a - b)"

definition fl_mul :: "rounding \<Rightarrow> real \<Rightarrow> real \<Rightarrow> real" where
  "fl_mul rnd a b = rnd (a * b)"

definition fl_div :: "rounding \<Rightarrow> real \<Rightarrow> real \<Rightarrow> real" where
  "fl_div rnd a b = rnd (a / b)"

text \<open>
  The cast \<^verbatim>\<open><int> d\<close> of a floating-point number truncates towards zero.  C leaves the
  cast undefined when the truncated value is not an \<^verbatim>\<open>int\<close>; the conversion instruction
  of x86-64 then yields \<open>-2^31\<close>, and so does the model.
\<close>

definition int_of_double :: "real \<Rightarrow> int" where
  "int_of_double d =
     (let t = (if 0 \<le> d then \<lfloor>d\<rfloor> else \<lceil>d\<rceil>)
      in if - (2 ^ 31) \<le> t \<and> t < 2 ^ 31 then t else - (2 ^ 31))"

text \<open>
  The exceptions the modelled code raises, and two outcomes that are no exceptions:
  \<open>BufferOverrun\<close> stands for a store past the end of a scratch buffer obtained from
  \<^verbatim>\<open>malloc\<close>, and \<open>OutOfBoundsRead\<close> for an unchecked read past the end of a list (the
  modules are compiled with \<^verbatim>\<open>boundscheck=False\<close>); after either, C leaves the behaviour
  of the program undefined.
\<close>

datatype error = MemoryError | ValueError | BufferOverrun | OutOfBoundsRead

record Vector2 =
  v2x :: real
  v2y :: real

section \<open>The clipper (engine/graphics/rasterizer/pipeline/clipper.pyx)\<close>

text \<open>The struct \<^verbatim>\<open>Vertex\<close>; its fields \<^verbatim>\<open>x, y, u, v\<close> carry the prefix \<open>vtx\<close>.\<close>

record Vertex =
  vtx_x :: real
  vtx_y :: real
  vtx_u :: real
  vtx_v :: real




text \<open>\<^verbatim>\<open>Clipper._intersect\<close> (an Isabelle name cannot start with an underscore).\<close>

definition intersect :: "rounding \<Rightarrow> Vertex \<Rightarrow> Vertex \<Rightarrow> real \<Rightarrow> int \<Rightarrow> Vertex" where
  "intersect rnd p1 p2 clip_val axis_idx =
     (let val_p1 = (if axis_idx = 0 then vtx_x p1 else vtx_y p1);
          val_p2 = (if axis_idx = 0 then vtx_x p2 else vtx_y p2);
          diff = fl_sub rnd val_p2 val_p1
      in if diff = 0 then p1
         else
           let t = fl_div rnd (fl_sub rnd clip_val val_p1) diff
           in \<lparr>vtx_x = fl_add rnd (vtx_x p1) (fl_mul rnd (fl_sub rnd (vtx_x p2) (vtx_x p1)) t),
               vtx_y = fl_add rnd (vtx_y p1) (fl_mul rnd (fl_sub rnd (vtx_y p2) (vtx_y p1)) t),
               vtx_u = fl_add rnd (vtx_u p1) (fl_mul rnd (fl_sub rnd (vtx_u p2) (vtx_u p1)) t),
               vtx_v = fl_add rnd (vtx_v p1) (fl_mul rnd (fl_sub rnd (vtx_v p2) (vtx_v p1)) t)\<rparr>)"

text \<open>
  The \<^verbatim>\<open>for\<close> loop of \<^verbatim>\<open>Clipper._clip_axis\<close>: \<open>p1\<close> is the previous vertex, the list
  holds the input vertices still to visit, and the result is what the loop appends to
  \<^verbatim>\<open>output_pts\<close>.  \<^verbatim>\<open>clip_polygon\<close> passes \<open>1.0\<close> or \<open>-1.0\<close> for \<open>sign\<close>, and the
  floating-point product of a number with either is exact; the two products of the
  inside test are therefore not rounded.
\<close>

fun clip_axis_loop ::
  "rounding \<Rightarrow> Vertex \<Rightarrow> Vertex list \<Rightarrow> real \<Rightarrow> int \<Rightarrow> real \<Rightarrow> Vertex list" where
  "clip_axis_loop rnd p1 [] boundary axis_idx sign = []"
| "clip_axis_loop rnd p1 (p2 # rest) boundary axis_idx sign =
     (let val_p1 = (if axis_idx = 0 then vtx_x p1 else vtx_y p1);
          val_p2 = (if axis_idx = 0 then vtx_x p2 else vtx_y p2);
          is_p1_in = (val_p1 * sign \<ge> boundary * sign);
          is_p2_in = (val_p2 * sign \<ge> boundary * sign);
          emitted =
            (if is_p1_in \<and> is_p2_in then [p2]
             else if is_p1_in \<and> \<not> is_p2_in then [intersect rnd p1 p2 boundary axis_idx]
             else if \<not> is_p1_in \<and> is_p2_in then [intersect rnd p1 p2 boundary axis_idx, p2]
             else [])
      in emitted @ clip_axis_loop rnd p2 rest boundary axis_idx sign)"

text \<open>
  \<^verbatim>\<open>_clip_axis\<close> returns the number of vertices it stored; the model returns the stored
  vertices.  The C function receives \<^verbatim>\<open>capacity\<close> and never reads it.
\<close>

definition clip_axis :: "rounding \<Rightarrow> Vertex list \<Rightarrow> real \<Rightarrow> int \<Rightarrow> real \<Rightarrow> Vertex list" where
  "clip_axis rnd input_pts boundary axis_idx sign =
     (if input_pts = [] then []
      else clip_axis_loop rnd (last input_pts) input_pts boundary axis_idx sign)"

text \<open>
  One pass of \<^verbatim>\<open>clip_polygon\<close>: the vertices \<^verbatim>\<open>_clip_axis\<close> stored, or \<open>BufferOverrun\<close>
  when they are more than the \<^verbatim>\<open>capacity\<close> entries the output buffer was allocated with.
\<close>

definition clip_pass ::
  "rounding \<Rightarrow> nat \<Rightarrow> Vertex list \<Rightarrow> real \<Rightarrow> int \<Rightarrow> real \<Rightarrow> error + Vertex list" where
  "clip_pass rnd capacity input_pts boundary axis_idx sign =
     (let output_pts = clip_axis rnd input_pts boundary axis_idx sign
      in if length output_pts > capacity then Inl BufferOverrun else Inr output_pts)"

text \<open>The vertex \<^verbatim>\<open>clip_polygon\<close> stores in \<^verbatim>\<open>buffer_a[i]\<close>.\<close>

definition load_vertex :: "bool \<Rightarrow> Vector2 list \<Rightarrow> Vector2 list \<Rightarrow> nat \<Rightarrow> Vertex" where
  "load_vertex has_uvs input_points uvs i =
     \<lparr>vtx_x = v2x (input_points ! i), vtx_y = v2y (input_points ! i),
      vtx_u = (if has_uvs then v2x (uvs ! i) else 0),
      vtx_v = (if has_uvs then v2y (uvs ! i) else 0)\<rparr>"

text \<open>
  \<^verbatim>\<open>clip_polygon\<close>.  \<open>allocated\<close> says whether both calls of \<^verbatim>\<open>malloc\<close> returned a
  buffer; \<open>input_uvs\<close> is \<open>None\<close> for Python's \<^verbatim>\<open>None\<close>.  The two returned arrays of
  shape \<open>(count, 2)\<close> are lists of rows.  The counts are C \<^verbatim>\<open>int\<close>s in the source and
  natural numbers here: a list is taken to have fewer than \<open>2^29\<close> elements, for which
  \<^verbatim>\<open>input_count * 2 + 16\<close> and the count of a pass stay in the range of \<^verbatim>\<open>int\<close>.
\<close>

definition clip_polygon ::
  "rounding \<Rightarrow> bool \<Rightarrow> Vector2 list \<Rightarrow> Vector2 list option \<Rightarrow> real \<Rightarrow> real \<Rightarrow> real \<Rightarrow> real
     \<Rightarrow> error + ((real \<times> real) list \<times> (real \<times> real) list)" where
  "clip_polygon rnd allocated input_points input_uvs min_x min_y max_x max_y =
     (let input_count = length input_points;
          has_uvs = (case input_uvs of None \<Rightarrow> False | Some uvs \<Rightarrow> length uvs = input_count)
      in if input_count = 0 then Inr ([], [])
         else
           let capacity = input_count * 2 + 16
           in if \<not> allocated then Inl MemoryError
              else
                let buffer_a = map (load_vertex has_uvs input_points
                                      (case input_uvs of None \<Rightarrow> [] | Some uvs \<Rightarrow> uvs))
                                 [0..<input_count]
                in (case clip_pass rnd capacity buffer_a min_x 0 1 of Inl e \<Rightarrow> Inl e
                    | Inr buffer_b \<Rightarrow>
                   (case clip_pass rnd capacity buffer_b max_x 0 (- 1) of Inl e \<Rightarrow> Inl e
                    | Inr buffer_a \<Rightarrow>
                   (case clip_pass rnd capacity buffer_a min_y 1 1 of Inl e \<Rightarrow> Inl e
                    | Inr buffer_b \<Rightarrow>
                   (case clip_pass rnd capacity buffer_b max_y 1 (- 1) of Inl e \<Rightarrow> Inl e
                    | Inr buffer_a \<Rightarrow>
                      if length buffer_a < 3 then Inr ([], [])
                      else Inr (map (\<lambda>p. (vtx_x p, vtx_y p)) buffer_a,
                                map (\<lambda>p. (vtx_u p, vtx_v p)) buffer_a))))))"

section \<open>The nearest-neighbour sampler\<close>

text \<open>
  A texture is a memoryview like the framebuffer; the sampler only reads it, at
  \<^verbatim>\<open>tex_data[x, y]\<close>.  The arguments \<^verbatim>\<open>u, v\<close> are C \<^verbatim>\<open>float\<close>s and \<^verbatim>\<open>floor\<close> is the
  C library's function on doubles.  In \<^verbatim>\<open>u = u - floor(u)\<close> the float is widened to a
  double, which is exact, the difference is a double operation, and the assignment
  narrows it to a float: the difference is rounded twice, by \<open>rd\<close> (the rounding of
  doubles) and then by \<open>rf\<close> (the rounding of floats).  In \<^verbatim>\<open>u * w\<close> the \<^verbatim>\<open>int\<close> is
  converted to a float and the product is a float operation; both round by \<open>rf\<close>.
\<close>

type_synonym texture = "int \<times> int \<Rightarrow> uint32"

definition sample_nearest ::
  "rounding \<Rightarrow> rounding \<Rightarrow> texture \<Rightarrow> int \<Rightarrow> int \<Rightarrow> real \<Rightarrow> real \<Rightarrow> uint32" where
  "sample_nearest rf rd tex_data w h u0 v0 =
     (let u = rf (fl_sub rd u0 (of_int \<lfloor>u0\<rfloor>));
          v = rf (fl_sub rd v0 (of_int \<lfloor>v0\<rfloor>));
          x = int_of_double (fl_mul rf u (rf (of_int w)));
          y = int_of_double (fl_mul rf v (rf (of_int h)));
          x = (if x \<ge> w then wrap32 (w - 1) else x);
          y = (if y \<ge> h then wrap32 (h - 1) else y);
          x = (if x < 0 then 0 else x);
          y = (if y < 0 then 0 else y)
      in tex_data (x, y))"

section \<open>The scanline fill of polygons\<close>

text \<open>
  The structs \<^verbatim>\<open>Edge\<close> and \<^verbatim>\<open>ActiveEdge\<close> have the same fields (but for the \<^verbatim>\<open>next\<close>
  pointer that chains the edges of a bucket); one record stands for both, and a bucket
  is a list, its head being the edge inserted last.  The plain fill leaves
  \<^verbatim>\<open>u, du, v, dv\<close> uninitialised and never reads them; the model sets them to \<open>0\<close>.
  A vertex array of shape \<open>(N, 2)\<close> is a list of rows.

  \<^verbatim>\<open>GET\<close> is an array of \<open>h\<close> bucket heads obtained from \<^verbatim>\<open>malloc\<close>, and
  \<^verbatim>\<open>GET[y_start] = new_edge\<close> is an unchecked store.  The model keeps the buckets as a
  function from row numbers to lists and records, in a list of its own, the index of
  every such store (most recent first).  An index outside \<open>0 \<le> y < h\<close> in that list is
  a store outside the allocated array, after which C leaves the behaviour of the program
  undefined; the model goes on as if the store had gone to a bucket of its own that no
  row of the sweep reads.

  The coordinates of the vertices, the slopes and the abscissas of the edges are doubles;
  the subtractions and the division that give a slope and the addition that advances an
  abscissa are rounded by \<open>rnd\<close>.  The comparison of a double with an \<^verbatim>\<open>int\<close> converts
  the \<^verbatim>\<open>int\<close>, which is exact.
\<close>

record Edge =
  y_max :: int
  edge_x :: real
  edge_dx :: real
  edge_u :: real
  edge_du :: real
  edge_v :: real
  edge_dv :: real

text \<open>The loop computing \<^verbatim>\<open>y_min_global\<close> and \<^verbatim>\<open>y_max_global\<close>.\<close>

definition scan_bounds :: "int \<Rightarrow> (real \<times> real) list \<Rightarrow> int \<times> int" where
  "scan_bounds h vertices =
     fold (\<lambda>(px, py) (y_min_global, y_max_global).
            (if py < of_int y_min_global then int_of_double py else y_min_global,
             if py > of_int y_max_global then int_of_double py else y_max_global))
          vertices (h, 0)"

text \<open>
  One iteration of the loop that builds \<^verbatim>\<open>GET\<close> in \<^verbatim>\<open>draw_polygon_filled\<close>; the state is
  \<^verbatim>\<open>GET\<close>, \<^verbatim>\<open>edges_count\<close> and the indices stored so far.
\<close>

definition get_insert_filled ::
  "rounding \<Rightarrow> int \<Rightarrow> (real \<times> real) list \<Rightarrow> nat \<Rightarrow> (int \<Rightarrow> Edge list) \<times> int \<times> int list
     \<Rightarrow> (int \<Rightarrow> Edge list) \<times> int \<times> int list" where
  "get_insert_filled rnd h vertices i st =
     (case st of (GET, edges_count, stored) \<Rightarrow>
      let num_verts = length vertices;
          p1x = fst (vertices ! i); p1y = snd (vertices ! i);
          p2x = fst (vertices ! ((i + 1) mod num_verts));
          p2y = snd (vertices ! ((i + 1) mod num_verts))
      in if int_of_double p1y = int_of_double p2y then (GET, edges_count, stored)
         else
           let swap = (p1y > p2y);
               q1x = (if swap then p2x else p1x); q2x = (if swap then p1x else p2x);
               q1y = (if swap then p2y else p1y); q2y = (if swap then p1y else p2y);
               y_start = int_of_double q1y;
               y_end = int_of_double q2y
           in if y_start \<ge> h \<or> y_end < 0 then (GET, edges_count, stored)
              else
                let inverse_slope = fl_div rnd (fl_sub rnd q2x q1x) (fl_sub rnd q2y q1y);
                    new_edge = \<lparr>y_max = y_end, edge_x = q1x, edge_dx = inverse_slope,
                                edge_u = 0, edge_du = 0, edge_v = 0, edge_dv = 0\<rparr>
                in (GET(y_start := new_edge # GET y_start), wrap32 (edges_count + 1),
                    y_start # stored))"

text \<open>
  The three steps that open the body of the row loop: the bucket of the row is moved
  into \<^verbatim>\<open>AET\<close>, the edges with \<^verbatim>\<open>y_max <= y\<close> are removed, and \<^verbatim>\<open>AET\<close> is sorted by
  \<open>x\<close>.  \<^verbatim>\<open>qsort\<close> leaves the order of edges with equal \<open>x\<close> unspecified; the model sorts
  stably.
\<close>

definition aet_insert :: "int \<Rightarrow> Edge list \<Rightarrow> Edge list \<Rightarrow> Edge list" where
  "aet_insert edges_count bucket AET =
     fold (\<lambda>node aet. if int (length aet) < edges_count then aet @ [node] else aet) bucket AET"

definition aet_remove :: "int \<Rightarrow> Edge list \<Rightarrow> Edge list" where
  "aet_remove y AET = filter (\<lambda>e. y_max e > y) AET"

definition active_edges :: "int \<Rightarrow> int \<Rightarrow> Edge list \<Rightarrow> Edge list \<Rightarrow> Edge list" where
  "active_edges edges_count y bucket AET =
     sort_key edge_x (aet_remove y (aet_insert edges_count bucket AET))"

text \<open>The last step of the body: \<^verbatim>\<open>x += dx\<close>.\<close>

definition advance_filled :: "rounding \<Rightarrow> Edge \<Rightarrow> Edge" where
  "advance_filled rnd e = e\<lparr>edge_x := fl_add rnd (edge_x e) (edge_dx e)\<rparr>"

text \<open>The span loop \<^verbatim>\<open>for j in range(0, aet_count - 1, 2)\<close> of the plain fill.\<close>

fun fill_spans :: "framebuffer \<Rightarrow> int \<Rightarrow> int \<Rightarrow> uint32 \<Rightarrow> Edge list \<Rightarrow> framebuffer" where
  "fill_spans buffer w y color (a # b # rest) =
     (let x_start = int_of_double (edge_x a);
          x_end = int_of_double (edge_x b);
          x_start' = (if x_start < 0 then 0 else x_start);
          x_end' = (if x_end > w then w else x_end);
          buffer' = (if x_start' < x_end'
                     then for_range x_start' x_end' (\<lambda>k fb. blend_at fb k y color) buffer
                     else buffer)
      in fill_spans buffer' w y color rest)"
| "fill_spans buffer w y color rest = buffer"

definition scan_row_filled ::
  "rounding \<Rightarrow> int \<Rightarrow> uint32 \<Rightarrow> int \<Rightarrow> int \<Rightarrow> framebuffer \<times> (int \<Rightarrow> Edge list) \<times> Edge list
     \<Rightarrow> framebuffer \<times> (int \<Rightarrow> Edge list) \<times> Edge list" where
  "scan_row_filled rnd w color edges_count y st =
     (case st of (buffer, GET, AET) \<Rightarrow>
      let aet = active_edges edges_count y (GET y) AET
      in (fill_spans buffer w y color aet, GET(y := []), map (advance_filled rnd) aet))"

text \<open>
  \<^verbatim>\<open>draw_polygon_filled\<close>.  \<open>allocated\<close> says whether \<^verbatim>\<open>malloc\<close> returned the array
  \<^verbatim>\<open>GET\<close>; the later calls of \<^verbatim>\<open>malloc\<close> are not checked by the source.  The result is
  the framebuffer together with the indices at which \<^verbatim>\<open>GET\<close> was stored.
\<close>

definition draw_polygon_filled ::
  "rounding \<Rightarrow> bool \<Rightarrow> framebuffer \<Rightarrow> (real \<times> real) list \<Rightarrow> uint32 \<Rightarrow> framebuffer \<times> int list" where
  "draw_polygon_filled rnd allocated buffer vertices color =
     (let w = wrap32 (shape0 buffer); h = wrap32 (shape1 buffer); num_verts = length vertices
      in if num_verts < 3 then (buffer, [])
         else
           let y_min0 = fst (scan_bounds h vertices);
               y_max0 = snd (scan_bounds h vertices);
               y_min_global = (if y_min0 < 0 then 0 else y_min0);
               y_max_global = (if y_max0 \<ge> h then wrap32 (h - 1) else y_max0)
           in if y_min_global > y_max_global then (buffer, [])
              else if \<not> allocated then (buffer, [])
              else
                let built = fold (get_insert_filled rnd h vertices) [0..<num_verts]
                              (\<lambda>_. [], 0, []);
                    GET = fst built; edges_count = fst (snd built); stored = snd (snd built)
                in (fst (for_range y_min_global (wrap32 (y_max_global + 1))
                           (scan_row_filled rnd w color edges_count) (buffer, GET, [])),
                    stored))"

section \<open>Vector2 and Transform2D\<close>

text \<open>
  \<^verbatim>\<open>Vector2.is_equal_approx\<close>; \<^verbatim>\<open>epsilon = 0.00001\<close> is the double nearest to \<open>10^-5\<close>.
\<close>

definition is_equal_approx :: "rounding \<Rightarrow> Vector2 \<Rightarrow> Vector2 \<Rightarrow> bool" where
  "is_equal_approx rnd self other =
     (let epsilon = rnd (1 / 100000)
      in \<bar>fl_sub rnd (v2x self) (v2x other)\<bar> < epsilon
         \<and> \<bar>fl_sub rnd (v2y self) (v2y other)\<bar> < epsilon)"

text \<open>The three fields \<^verbatim>\<open>x, y, origin\<close> of \<open>Transform2D\<close>.\<close>

record Transform2D =
  basis_x :: Vector2
  basis_y :: Vector2
  origin :: Vector2

definition from_basis :: "Vector2 \<Rightarrow> Vector2 \<Rightarrow> Vector2 \<Rightarrow> Transform2D" where
  "from_basis x_axis y_axis origin' = \<lparr>basis_x = x_axis, basis_y = y_axis, origin = origin'\<rparr>"

definition xform_c :: "rounding \<Rightarrow> Transform2D \<Rightarrow> Vector2 \<Rightarrow> Vector2" where
  "xform_c rnd self v =
     \<lparr>v2x = fl_add rnd (fl_add rnd (fl_mul rnd (v2x (basis_x self)) (v2x v))
                                     (fl_mul rnd (v2x (basis_y self)) (v2y v)))
                        (v2x (origin self)),
      v2y = fl_add rnd (fl_add rnd (fl_mul rnd (v2y (basis_x self)) (v2x v))
                                     (fl_mul rnd (v2y (basis_y self)) (v2y v)))
                        (v2y (origin self))\<rparr>"

definition xform :: "rounding \<Rightarrow> Transform2D \<Rightarrow> Vector2 \<Rightarrow> Vector2" where
  "xform rnd self v = xform_c rnd self v"

text \<open>The determinant as \<^verbatim>\<open>inverse\<close> computes it.\<close>

definition determinant :: "rounding \<Rightarrow> Transform2D \<Rightarrow> real" where
  "determinant rnd self =
     fl_sub rnd (fl_mul rnd (v2x (basis_x self)) (v2y (basis_y self)))
                (fl_mul rnd (v2y (basis_x self)) (v2x (basis_y self)))"

definition inverse_transform :: "rounding \<Rightarrow> Transform2D \<Rightarrow> error + Transform2D" where
  "inverse_transform rnd self =
     (let det = determinant rnd self
      in if det = 0 then Inl ValueError
         else
           let idet = fl_div rnd 1 det;
               inv_x = \<lparr>v2x = fl_mul rnd (v2y (basis_y self)) idet,
                        v2y = fl_mul rnd (- v2x (basis_y self)) idet\<rparr>;
               inv_y = \<lparr>v2x = fl_mul rnd (- v2y (basis_x self)) idet,
                        v2y = fl_mul rnd (v2x (basis_x self)) idet\<rparr>;
               ox = v2x (origin self);
               oy = v2y (origin self);
               new_origin =
                 \<lparr>v2x = - fl_add rnd (fl_mul rnd (v2x inv_x) ox) (fl_mul rnd (v2x inv_y) oy),
                  v2y = - fl_add rnd (fl_mul rnd (v2y inv_x) ox) (fl_mul rnd (v2y inv_y) oy)\<rparr>
           in Inr (from_basis inv_x inv_y new_origin))"

section \<open>Homography (engine/math/algorithms/homography.pyx)\<close>











section \<open>Notions used in the statements\<close>









text \<open>A \<open>Vector2\<close> as a row \<open>(x, y)\<close> of a returned array.\<close>

definition row_of :: "Vector2 \<Rightarrow> real \<times> real" where
  "row_of p = (v2x p, v2y p)"

chapter \<open>Properties\<close>

section \<open>Colours and rectangles\<close>

lemma blend_colors_opaque: "drop_bit 24 src = 255 \<Longrightarrow> blend_colors src dst = src"
  by (simp add: blend_colors_def)

lemma blend_colors_transparent: "drop_bit 24 src = 0 \<Longrightarrow> blend_colors src dst = dst"
  by (simp add: blend_colors_def)

lemma blend_half_red_over_blue: "blend_colors 0x80FF0000 0xFF0000FF = 0xFE7F007E"
  by (simp add: blend_colors_def unpack_rgba_def pack_rgba_def)

text \<open>
  Claim C2, as stated: on a 1x1 framebuffer whose pixel is \<open>0xFF0000FF\<close>,
  \<^verbatim>\<open>fill_rect(fb, 0,0,1,1, 0x80FF0000)\<close> leaves red = 127, blue = 126 and alpha = 255.
  The code does not: the alpha byte it stores is \<open>128 + ((255 * 127) >> 8) = 254\<close>.
\<close>

theorem C2_alpha_255_counterexample:
  "\<not> (case unpack_rgba
            (cells (fill_rect \<lparr>shape0 = 1, shape1 = 1, cells = (\<lambda>_. 0xFF0000FF), written = []\<rparr>
                      0 0 1 1 0x80FF0000) (0, 0))
        of (r, g, b, a) \<Rightarrow> r = 127 \<and> b = 126 \<and> a = 255)"
  by (simp add: fill_rect_def rasterize_rect_filled_c_def for_range_def blend_at_def
      buffer_set_def blend_half_red_over_blue unpack_rgba_def wrap32_def)

text \<open>
  Claim C2, amended: on every 1x1 framebuffer whose single pixel is \<open>0xFF0000FF\<close>,
  \<^verbatim>\<open>fill_rect(fb, 0,0,1,1, 0x80FF0000)\<close> stores exactly one pixel, at \<open>(0,0)\<close>, and
  leaves it with the bytes of the \<^verbatim>\<open>>>8\<close> source-over formula: red = 127, green = 0,
  blue = 126 and alpha = 254, that is the word \<open>0xFE7F007E\<close>.
\<close>

theorem C2_half_alpha_blend:
  assumes "shape0 fb = 1" and "shape1 fb = 1" and "cells fb (0, 0) = 0xFF0000FF"
  shows "cells (fill_rect fb 0 0 1 1 0x80FF0000) (0, 0) = 0xFE7F007E
       \<and> unpack_rgba (cells (fill_rect fb 0 0 1 1 0x80FF0000) (0, 0)) = (127, 0, 126, 254)
       \<and> written (fill_rect fb 0 0 1 1 0x80FF0000) = (0, 0) # written fb"
  using assms
  by (simp add: fill_rect_def rasterize_rect_filled_c_def for_range_def blend_at_def
      buffer_set_def blend_half_red_over_blue unpack_rgba_def wrap32_def)

theorem C2_half_alpha_blend_witness:
  "unpack_rgba
     (cells (fill_rect \<lparr>shape0 = 1, shape1 = 1, cells = (\<lambda>_. 0xFF0000FF), written = []\<rparr>
               0 0 1 1 0x80FF0000) (0, 0)) = (127, 0, 126, 254)"
proof -
  let ?fb = "\<lparr>shape0 = 1, shape1 = 1, cells = (\<lambda>_. 0xFF0000FF), written = []\<rparr>"
  have "shape0 ?fb = 1" and "shape1 ?fb = 1" and "cells ?fb (0, 0) = 0xFF0000FF"
    by simp_all
  from C2_half_alpha_blend [OF this] show ?thesis
    by (rule conjunct2 [THEN conjunct1])
qed

section \<open>Lines\<close>

text \<open>
  Claim C9: on a 5x5 framebuffer, \<^verbatim>\<open>draw_line(fb, 0,0, 4,2, 0xFF00FF00)\<close> returns, and
  it stores the colour at exactly the pixels \<open>(0,0), (1,0), (2,1), (3,1), (4,2)\<close>
  (in this order) and at no other pixel; every other cell keeps its value.
\<close>

theorem C9_bresenham_trace:
  assumes "shape0 fb = 5" and "shape1 fb = 5"
  shows "draw_line fb 0 0 4 2 0xFF00FF00 =
           Some (fb\<lparr>cells := (\<lambda>p. if p \<in> {(0, 0), (1, 0), (2, 1), (3, 1), (4, 2)}
                                  then 0xFF00FF00 else cells fb p),
                    written := [(4, 2), (3, 1), (2, 1), (1, 0), (0, 0)] @ written fb\<rparr>)"
proof -
  have "rasterize_line_c fb 0 0 4 2 0xFF00FF00 =
          Some (fb\<lparr>cells := (\<lambda>p. if p \<in> {(0, 0), (1, 0), (2, 1), (3, 1), (4, 2)}
                                 then 0xFF00FF00 else cells fb p),
                   written := [(4, 2), (3, 1), (2, 1), (1, 0), (0, 0)] @ written fb\<rparr>)"
    using assms
    apply (simp add: rasterize_line_c_def wrap32_def)
    apply (simp add: line_loop.simps blend_at_def buffer_set_def blend_colors_opaque Let_def
        wrap32_def)
    apply (rule framebuffer.equality; simp add: fun_eq_iff)
    done
  then show ?thesis by (simp add: draw_line_def)
qed

theorem C9_bresenham_trace_witness:
  "draw_line \<lparr>shape0 = 5, shape1 = 5, cells = (\<lambda>_. 0), written = []\<rparr> 0 0 4 2 0xFF00FF00 =
     Some \<lparr>shape0 = 5, shape1 = 5,
           cells = (\<lambda>p. if p \<in> {(0, 0), (1, 0), (2, 1), (3, 1), (4, 2)} then 0xFF00FF00 else 0),
           written = [(4, 2), (3, 1), (2, 1), (1, 0), (0, 0)]\<rparr>"
proof -
  let ?fb = "\<lparr>shape0 = 5, shape1 = 5, cells = (\<lambda>_. 0), written = []\<rparr>"
  have "shape0 ?fb = 5" and "shape1 ?fb = 5"
    by simp_all
  from C9_bresenham_trace [OF this] show ?thesis
    by (simp cong: if_cong)
qed

section \<open>The inverse of a transform\<close>

lemma round_binary64_values:
  "round_binary64 0 = 0" "round_binary64 1 = 1" "round_binary64 (- 1) = - 1"
  "round_binary64 2 = 2" "round_binary64 (- 2) = - 2"
  "round_binary64 (1 / 10) = 3602879701896397 / 36028797018963968"
  "round_binary64 (1 / 100000) = 5902958103587057 / 590295810358705651712"
  "round_binary64 (2 ^ 53 + 1) = 2 ^ 53" "round_binary64 (2 ^ 53 + 3) = 2 ^ 53 + 4"
  by (simp_all add: round_binary64_def round_nearest_even_def binary_exponent_def
      round_half_even_def bit_length.simps Let_def)

text \<open>
  Claim C1 says that \<^verbatim>\<open>T.inverse().xform(T.xform(v)).is_equal_approx(v)\<close> for every
  non-singular \<open>T\<close>.  The code breaks it.  For the matrix
  \<open>[x.x y.x; x.y y.y]\<close> the inverse basis is \<open>X = (y.y, -x.y) / det\<close> and
  \<open>Y = (-y.x, x.x) / det\<close>; \<^verbatim>\<open>inverse\<close> builds \<open>(y.y, -y.x) / det\<close> and
  \<open>(-x.y, x.x) / det\<close>, the rows of the inverse matrix, and passes them to
  \<^verbatim>\<open>from_basis\<close> as its columns.  The theorem evaluates the code at the rotation by a
  quarter turn, \<open>x = (0, 1)\<close>, \<open>y = (-1, 0)\<close>, \<open>origin = (0, 0)\<close>, whose determinant is
  \<open>1\<close>, and at \<open>v = (1, 0)\<close>: \<^verbatim>\<open>inverse\<close> returns the rotation itself, the round trip
  yields \<open>(-1, 0)\<close>, and \<^verbatim>\<open>is_equal_approx\<close> is false.  This holds in exact arithmetic
  and in double precision alike (every intermediate value is \<open>0\<close>, \<open>1\<close> or \<open>-1\<close>).
\<close>

theorem C1_inverse_round_trip_fails:
  "determinant exact
     \<lparr>basis_x = \<lparr>v2x = 0, v2y = 1\<rparr>, basis_y = \<lparr>v2x = - 1, v2y = 0\<rparr>,
      origin = \<lparr>v2x = 0, v2y = 0\<rparr>\<rparr> = 1
   \<and> inverse_transform exact
       \<lparr>basis_x = \<lparr>v2x = 0, v2y = 1\<rparr>, basis_y = \<lparr>v2x = - 1, v2y = 0\<rparr>,
        origin = \<lparr>v2x = 0, v2y = 0\<rparr>\<rparr> =
     Inr \<lparr>basis_x = \<lparr>v2x = 0, v2y = 1\<rparr>, basis_y = \<lparr>v2x = - 1, v2y = 0\<rparr>,
          origin = \<lparr>v2x = 0, v2y = 0\<rparr>\<rparr>
   \<and> inverse_transform round_binary64
       \<lparr>basis_x = \<lparr>v2x = 0, v2y = 1\<rparr>, basis_y = \<lparr>v2x = - 1, v2y = 0\<rparr>,
        origin = \<lparr>v2x = 0, v2y = 0\<rparr>\<rparr> =
     Inr \<lparr>basis_x = \<lparr>v2x = 0, v2y = 1\<rparr>, basis_y = \<lparr>v2x = - 1, v2y = 0\<rparr>,
          origin = \<lparr>v2x = 0, v2y = 0\<rparr>\<rparr>
   \<and> xform exact
       \<lparr>basis_x = \<lparr>v2x = 0, v2y = 1\<rparr>, basis_y = \<lparr>v2x = - 1, v2y = 0\<rparr>,
        origin = \<lparr>v2x = 0, v2y = 0\<rparr>\<rparr>
       (xform exact
         \<lparr>basis_x = \<lparr>v2x = 0, v2y = 1\<rparr>, basis_y = \<lparr>v2x = - 1, v2y = 0\<rparr>,
          origin = \<lparr>v2x = 0, v2y = 0\<rparr>\<rparr>
         \<lparr>v2x = 1, v2y = 0\<rparr>) = \<lparr>v2x = - 1, v2y = 0\<rparr>
   \<and> xform round_binary64
       \<lparr>basis_x = \<lparr>v2x = 0, v2y = 1\<rparr>, basis_y = \<lparr>v2x = - 1, v2y = 0\<rparr>,
        origin = \<lparr>v2x = 0, v2y = 0\<rparr>\<rparr>
       (xform round_binary64
         \<lparr>basis_x = \<lparr>v2x = 0, v2y = 1\<rparr>, basis_y = \<lparr>v2x = - 1, v2y = 0\<rparr>,
          origin = \<lparr>v2x = 0, v2y = 0\<rparr>\<rparr>
         \<lparr>v2x = 1, v2y = 0\<rparr>) = \<lparr>v2x = - 1, v2y = 0\<rparr>
   \<and> \<not> is_equal_approx exact \<lparr>v2x = - 1, v2y = 0\<rparr> \<lparr>v2x = 1, v2y = 0\<rparr>
   \<and> \<not> is_equal_approx round_binary64 \<lparr>v2x = - 1, v2y = 0\<rparr> \<lparr>v2x = 1, v2y = 0\<rparr>"
  by (simp add: inverse_transform_def determinant_def from_basis_def xform_def xform_c_def
      is_equal_approx_def Let_def fl_add_def fl_sub_def fl_mul_def fl_div_def exact_def
      round_binary64_values)

section \<open>Segment clipping\<close>

lemmas round_binary64_eval =
  round_binary64_def round_nearest_even_def binary_exponent_def round_half_even_def
  bit_length.simps Let_def

lemma round_binary64_small:
  "round_binary64 4 = 4" "round_binary64 (- 4) = - 4" "round_binary64 (- 6) = - 6"
  "round_binary64 (- 5) = - 5" "round_binary64 3 = 3" "round_binary64 (- 3) = - 3"
  by (simp_all add: round_binary64_eval)
















section \<open>Polygon clipping\<close>

lemma clip_axis_loop_all_in:
  "\<forall>p \<in> set (p1 # ps). (if axis_idx = 0 then vtx_x p else vtx_y p) * sign \<ge> boundary * sign \<Longrightarrow>
   clip_axis_loop rnd p1 ps boundary axis_idx sign = ps"
  by (induction ps arbitrary: p1) (simp_all add: Let_def)

lemma clip_axis_all_in:
  assumes "\<forall>p \<in> set ps. (if axis_idx = 0 then vtx_x p else vtx_y p) * sign \<ge> boundary * sign"
  shows "clip_axis rnd ps boundary axis_idx sign = ps"
proof (cases "ps = []")
  case True
  then show ?thesis by (simp add: clip_axis_def)
next
  case False
  then have "last ps \<in> set ps" by simp
  with assms have "\<forall>p \<in> set (last ps # ps).
      (if axis_idx = 0 then vtx_x p else vtx_y p) * sign \<ge> boundary * sign"
    by simp
  then show ?thesis
    using False by (simp add: clip_axis_def clip_axis_loop_all_in del: set_simps)
qed

lemma clip_pass_all_in:
  assumes "\<forall>p \<in> set ps. (if axis_idx = 0 then vtx_x p else vtx_y p) * sign \<ge> boundary * sign"
    and "length ps \<le> capacity"
  shows "clip_pass rnd capacity ps boundary axis_idx sign = Inr ps"
  using assms by (simp add: clip_pass_def clip_axis_all_in)

text \<open>
  Claim C8: when the scratch buffers are allocated, a polygon of three or more vertices
  that all lie in the clip window \<open>[min_x, max_x] \<times> [min_y, max_y]\<close> comes back from
  \<^verbatim>\<open>clip_polygon\<close> as exactly the input vertices in the input order, together with the
  input UVs unchanged (when UVs of the same length were given; rows of zeros otherwise).
  No floating-point operation is rounded on this path, so the statement holds whatever
  the rounding is.
\<close>

theorem C8_clip_polygon_inside_identity:
  assumes alloc: "allocated" and n3: "3 \<le> length pts"
    and inside: "\<forall>p \<in> set pts. min_x \<le> v2x p \<and> v2x p \<le> max_x \<and> min_y \<le> v2y p \<and> v2y p \<le> max_y"
  shows "clip_polygon rnd allocated pts input_uvs min_x min_y max_x max_y =
           Inr (map row_of pts,
                case input_uvs of
                  None \<Rightarrow> replicate (length pts) (0, 0)
                | Some uvs \<Rightarrow> if length uvs = length pts then map row_of uvs
                              else replicate (length pts) (0, 0))"
proof -
  define has_uvs where
    "has_uvs = (case input_uvs of None \<Rightarrow> False | Some uvs \<Rightarrow> length uvs = length pts)"
  define us where "us = (case input_uvs of None \<Rightarrow> [] | Some uvs \<Rightarrow> uvs)"
  define buf where "buf = map (load_vertex has_uvs pts us) [0..<length pts]"
  have len: "length buf = length pts" by (simp add: buf_def)
  have ne: "pts \<noteq> []" using n3 by auto
  have xs: "map (\<lambda>p. (vtx_x p, vtx_y p)) buf = map row_of pts"
    by (rule nth_equalityI) (simp_all add: buf_def load_vertex_def row_of_def)
  have "\<forall>p \<in> set buf. min_x \<le> vtx_x p \<and> vtx_x p \<le> max_x \<and> min_y \<le> vtx_y p \<and> vtx_y p \<le> max_y"
    using inside by (auto simp: buf_def load_vertex_def)
  then have in1: "\<forall>p \<in> set buf. (if (0::int) = 0 then vtx_x p else vtx_y p) * 1 \<ge> min_x * 1"
    and in2: "\<forall>p \<in> set buf. (if (0::int) = 0 then vtx_x p else vtx_y p) * (- 1) \<ge> max_x * (- 1)"
    and in3: "\<forall>p \<in> set buf. (if (1::int) = 0 then vtx_x p else vtx_y p) * 1 \<ge> min_y * 1"
    and in4: "\<forall>p \<in> set buf. (if (1::int) = 0 then vtx_x p else vtx_y p) * (- 1) \<ge> max_y * (- 1)"
    by simp_all
  have cap: "length buf \<le> length pts * 2 + 16" using len by simp
  have res: "clip_polygon rnd allocated pts input_uvs min_x min_y max_x max_y =
          Inr (map (\<lambda>p. (vtx_x p, vtx_y p)) buf, map (\<lambda>p. (vtx_u p, vtx_v p)) buf)"
    using alloc n3 len ne
    unfolding clip_polygon_def Let_def
      has_uvs_def [symmetric] us_def [symmetric] buf_def [symmetric]
    by (simp add: clip_pass_all_in [OF in1 cap] clip_pass_all_in [OF in2 cap]
        clip_pass_all_in [OF in3 cap] clip_pass_all_in [OF in4 cap])
  have uv_given: "map (\<lambda>p. (vtx_u p, vtx_v p)) buf = map row_of uvs"
    if "input_uvs = Some uvs" "length uvs = length pts" for uvs
    using that
    by (intro nth_equalityI) (simp_all add: buf_def load_vertex_def has_uvs_def us_def row_of_def)
  have uv_none: "map (\<lambda>p. (vtx_u p, vtx_v p)) buf = replicate (length pts) (0, 0)"
    if "\<not> has_uvs"
    using that by (intro nth_equalityI) (simp_all add: buf_def load_vertex_def)
  show ?thesis
  proof (cases input_uvs)
    case None
    then have "\<not> has_uvs" by (simp add: has_uvs_def)
    with res xs uv_none None show ?thesis by simp
  next
    case (Some uvs)
    show ?thesis
    proof (cases "length uvs = length pts")
      case True
      with res xs uv_given [OF Some] Some show ?thesis by simp
    next
      case False
      with Some have "\<not> has_uvs" by (simp add: has_uvs_def)
      with res xs uv_none Some False show ?thesis by simp
    qed
  qed
qed

theorem C8_clip_polygon_inside_identity_witness:
  "clip_polygon round_binary64 True
     [\<lparr>v2x = 0, v2y = 0\<rparr>, \<lparr>v2x = 2, v2y = 0\<rparr>, \<lparr>v2x = 1, v2y = 1\<rparr>]
     (Some [\<lparr>v2x = 0, v2y = 0\<rparr>, \<lparr>v2x = 1, v2y = 0\<rparr>, \<lparr>v2x = 1 / 2, v2y = 1\<rparr>])
     0 0 2 2 =
   Inr ([(0, 0), (2, 0), (1, 1)], [(0, 0), (1, 0), (1 / 2, 1)])"
proof -
  let ?pts = "[\<lparr>v2x = 0, v2y = 0\<rparr>, \<lparr>v2x = 2, v2y = 0\<rparr>, \<lparr>v2x = 1, v2y = 1\<rparr>]"
  have "True" and "3 \<le> length ?pts"
    and "\<forall>p \<in> set ?pts. (0::real) \<le> v2x p \<and> v2x p \<le> 2 \<and> (0::real) \<le> v2y p \<and> v2y p \<le> 2"
    by simp_all
  from C8_clip_polygon_inside_identity [OF this, where rnd = round_binary64] show ?thesis
    by (simp add: row_of_def)
qed









lemma round_binary64_zigzag:
  "round_binary64 (- 20) = - 20" "round_binary64 (- 16) = - 16" "round_binary64 (- 10) = - 10"
  "round_binary64 (- 8) = - 8" "round_binary64 (1 / 2) = 1 / 2" "round_binary64 5 = 5"
  "round_binary64 6 = 6" "round_binary64 8 = 8" "round_binary64 10 = 10"
  "round_binary64 16 = 16" "round_binary64 20 = 20"
  by (simp_all add: round_binary64_eval)







section \<open>Nearest-neighbour sampling\<close>

lemma frac_bounds: "0 \<le> u - of_int \<lfloor>u\<rfloor>" "u - of_int \<lfloor>u\<rfloor> < (1::real)"
  by linarith+

lemma scaled_frac_index:
  fixes f :: real and n :: int
  assumes "0 \<le> f" and "f < 1" and "1 \<le> n" and "n < 2 ^ 31"
  shows "0 \<le> \<lfloor>f * of_int n\<rfloor> \<and> \<lfloor>f * of_int n\<rfloor> < n
       \<and> int_of_double (f * of_int n) = \<lfloor>f * of_int n\<rfloor>"
proof -
  have n0: "0 < (of_int n :: real)" using assms by simp
  have a: "0 \<le> f * of_int n" using assms by simp
  have "f * of_int n < 1 * of_int n"
    using assms n0 by (intro mult_strict_right_mono) auto
  then have b: "f * of_int n < of_int n" by simp
  from a have c: "0 \<le> \<lfloor>f * of_int n\<rfloor>" by simp
  from b have d: "\<lfloor>f * of_int n\<rfloor> < n" by (simp add: floor_less_iff)
  from assms(4) have "(of_int n :: real) < 2 ^ 31"
    by (metis of_int_less_iff of_int_numeral of_int_power)
  with b have e: "f * of_int n < 2 ^ 31" by simp
  from a c d e show ?thesis by (simp add: int_of_double_def floor_less_iff)
qed

lemma wrap32_range: "- (2 ^ 31) \<le> wrap32 n" "wrap32 n < 2 ^ 31"
  by (simp_all add: wrap32_def)

lemma wrap32_id: "- (2 ^ 31) \<le> n \<Longrightarrow> n < 2 ^ 31 \<Longrightarrow> wrap32 n = n"
  by (simp add: wrap32_def)

lemma clamped_index:
  fixes x w :: int
  assumes "1 \<le> w"
  shows "0 \<le> (if (if x \<ge> w then wrap32 (w - 1) else x) < 0 then 0
              else (if x \<ge> w then wrap32 (w - 1) else x))"
    and "(if (if x \<ge> w then wrap32 (w - 1) else x) < 0 then 0
          else (if x \<ge> w then wrap32 (w - 1) else x)) < w"
proof -
  show "0 \<le> (if (if x \<ge> w then wrap32 (w - 1) else x) < 0 then 0
              else (if x \<ge> w then wrap32 (w - 1) else x))"
    by simp
  have "wrap32 (w - 1) < w"
  proof (cases "w \<le> 2 ^ 31")
    case True
    with assms have "wrap32 (w - 1) = w - 1" by (intro wrap32_id) simp_all
    then show ?thesis by simp
  next
    case False
    with wrap32_range(2) [of "w - 1"] show ?thesis by simp
  qed
  with assms show "(if (if x \<ge> w then wrap32 (w - 1) else x) < 0 then 0
          else (if x \<ge> w then wrap32 (w - 1) else x)) < w"
    by simp
qed

lemmas round_binary32_eval =
  round_binary32_def round_nearest_even_def binary_exponent_def round_half_even_def
  bit_length.simps Let_def

lemma round_binary32_values:
  "round_binary32 0 = 0" "round_binary32 1 = 1" "round_binary32 10 = 10"
  "round_binary32 4 = 4"
  "round_binary32 (3 / 8) = 3 / 8" "round_binary32 (7 / 8) = 7 / 8"
  "round_binary32 (3 / 2) = 3 / 2" "round_binary32 (7 / 2) = 7 / 2"
  "round_binary32 (11744051 / 16777216) = 11744051 / 16777216"
  "round_binary32 (58720255 / 8388608) = 7"
  by (simp_all add: round_binary32_eval)

lemma round_binary64_sampler:
  "round_binary64 (3 / 8) = 3 / 8" "round_binary64 (7 / 8) = 7 / 8"
  "round_binary64 (11744051 / 16777216) = 11744051 / 16777216"
  by (simp_all add: round_binary64_eval)

text \<open>
  Claim C7, as stated: \<^verbatim>\<open>sample_nearest(tex, w, h, u, v)\<close> is the texel
  \<open>tex[floor(u' * w) mod w, floor(v' * h) mod h]\<close> with \<open>u' = u - floor(u)\<close> and
  \<open>v' = v - floor(v)\<close>.  The code does not, because the product \<^verbatim>\<open>u * w\<close> is a product
  of floats.  For \<open>u = 11744051 / 2^24\<close>, the float nearest to \<open>0.7\<close>, and \<open>w = 10\<close> the
  exact product is \<open>6.99999988...\<close> and \<open>floor(u' * w) mod w = 6\<close>, but the nearest float
  to the product is \<open>7\<close>, and the code reads column \<open>7\<close>.  The texture of the statement
  holds the number of its column in every texel.
\<close>

theorem C7_rounded_product_reads_the_next_texel:
  "sample_nearest round_binary32 round_binary64 (\<lambda>(x, y). word_of_int x) 10 1
     (11744051 / 16777216) 0 = 7
   \<and> (\<lambda>(x, y). word_of_int x :: uint32)
       (\<lfloor>((11744051 / 16777216 :: real) - of_int \<lfloor>11744051 / 16777216 :: real\<rfloor>) * of_int 10\<rfloor> mod 10,
        \<lfloor>((0 :: real) - of_int \<lfloor>0 :: real\<rfloor>) * of_int 1\<rfloor> mod 1) = 6"
  by (simp add: sample_nearest_def Let_def fl_sub_def fl_mul_def int_of_double_def
      round_binary32_values round_binary64_values round_binary64_sampler)

text \<open>
  Claim C7, amended.  For a texture of declared extent \<open>w \<times> h\<close> with \<open>w, h \<ge> 1\<close>, all
  coordinates \<open>u, v\<close>, and whatever the rounding of floats and doubles is,
  \<^verbatim>\<open>sample_nearest(tex, w, h, u, v)\<close> is a texel \<open>tex[x, y]\<close> with \<open>0 \<le> x < w\<close> and
  \<open>0 \<le> y < h\<close>.  It is the texel \<open>tex[floor(u' * w) mod w, floor(v' * h) mod h]\<close>, with
  \<open>u' = u - floor(u)\<close> and \<open>v' = v - floor(v)\<close>, when \<open>w\<close> and \<open>h\<close> are C \<^verbatim>\<open>int\<close>s and the
  floating-point operations of the call are exact: the wrapped coordinates \<open>u'\<close> and
  \<open>v'\<close>, the extents \<open>w\<close> and \<open>h\<close> and the products \<open>u' * w\<close> and \<open>v' * h\<close> are floats.
\<close>

theorem C7_sample_nearest_wrapped_texel:
  assumes "1 \<le> w" and "1 \<le> h"
  shows "(\<exists>x y. 0 \<le> x \<and> x < w \<and> 0 \<le> y \<and> y < h
            \<and> sample_nearest rf rd tex w h u v = tex (x, y))
       \<and> (w < 2 ^ 31 \<and> h < 2 ^ 31
            \<and> rf (rd (u - of_int \<lfloor>u\<rfloor>)) = u - of_int \<lfloor>u\<rfloor>
            \<and> rf (rd (v - of_int \<lfloor>v\<rfloor>)) = v - of_int \<lfloor>v\<rfloor>
            \<and> rf (of_int w) = of_int w \<and> rf (of_int h) = of_int h
            \<and> rf ((u - of_int \<lfloor>u\<rfloor>) * of_int w) = (u - of_int \<lfloor>u\<rfloor>) * of_int w
            \<and> rf ((v - of_int \<lfloor>v\<rfloor>) * of_int h) = (v - of_int \<lfloor>v\<rfloor>) * of_int h
          \<longrightarrow> sample_nearest rf rd tex w h u v =
                tex (\<lfloor>(u - of_int \<lfloor>u\<rfloor>) * of_int w\<rfloor> mod w,
                     \<lfloor>(v - of_int \<lfloor>v\<rfloor>) * of_int h\<rfloor> mod h))"
proof (intro conjI impI)
  define x where "x = int_of_double (fl_mul rf (rf (fl_sub rd u (of_int \<lfloor>u\<rfloor>))) (rf (of_int w)))"
  define y where "y = int_of_double (fl_mul rf (rf (fl_sub rd v (of_int \<lfloor>v\<rfloor>))) (rf (of_int h)))"
  have "sample_nearest rf rd tex w h u v =
          tex (if (if x \<ge> w then wrap32 (w - 1) else x) < 0 then 0
               else (if x \<ge> w then wrap32 (w - 1) else x),
               if (if y \<ge> h then wrap32 (h - 1) else y) < 0 then 0
               else (if y \<ge> h then wrap32 (h - 1) else y))"
    by (simp add: sample_nearest_def Let_def x_def y_def)
  with clamped_index [OF assms(1), of x] clamped_index [OF assms(2), of y]
  show "\<exists>x y. 0 \<le> x \<and> x < w \<and> 0 \<le> y \<and> y < h
            \<and> sample_nearest rf rd tex w h u v = tex (x, y)"
    by blast
next
  assume e: "w < 2 ^ 31 \<and> h < 2 ^ 31
            \<and> rf (rd (u - of_int \<lfloor>u\<rfloor>)) = u - of_int \<lfloor>u\<rfloor>
            \<and> rf (rd (v - of_int \<lfloor>v\<rfloor>)) = v - of_int \<lfloor>v\<rfloor>
            \<and> rf (of_int w) = of_int w \<and> rf (of_int h) = of_int h
            \<and> rf ((u - of_int \<lfloor>u\<rfloor>) * of_int w) = (u - of_int \<lfloor>u\<rfloor>) * of_int w
            \<and> rf ((v - of_int \<lfloor>v\<rfloor>) * of_int h) = (v - of_int \<lfloor>v\<rfloor>) * of_int h"
  from e have w31: "w < 2 ^ 31" and h31: "h < 2 ^ 31" by simp_all
  from e show "sample_nearest rf rd tex w h u v =
                tex (\<lfloor>(u - of_int \<lfloor>u\<rfloor>) * of_int w\<rfloor> mod w,
                     \<lfloor>(v - of_int \<lfloor>v\<rfloor>) * of_int h\<rfloor> mod h)"
    using scaled_frac_index [OF frac_bounds [of u] assms(1) w31]
      scaled_frac_index [OF frac_bounds [of v] assms(2) h31]
    by (simp add: sample_nearest_def Let_def fl_sub_def fl_mul_def)
qed

theorem C7_sample_nearest_wrapped_texel_witness:
  "sample_nearest round_binary32 round_binary64 (\<lambda>(x, y). word_of_int (x + 10 * y)) 4 4
     (11 / 8) (- 1 / 8) = 31"
proof -
  have "(1::int) \<le> 4" by simp
  from C7_sample_nearest_wrapped_texel [OF this this, of round_binary32 round_binary64
      "\<lambda>(x, y). word_of_int (x + 10 * y)" "11 / 8" "- 1 / 8"]
  show ?thesis
    by (simp add: round_binary32_values round_binary64_sampler)
qed

section \<open>Homography\<close>








































section \<open>The active edge table\<close>

lemma get_insert_filled_from_above:
  "get_insert_filled round_binary64 4 [(0, - 2), (4, 2), (0, 2)] (Suc (Suc 0))
     (get_insert_filled round_binary64 4 [(0, - 2), (4, 2), (0, 2)] (Suc 0)
       (get_insert_filled round_binary64 4 [(0, - 2), (4, 2), (0, 2)] 0 (\<lambda>_. [], 0, []))) =
   ((\<lambda>_. [])
      (- 2 := [\<lparr>y_max = 2, edge_x = 0, edge_dx = 0, edge_u = 0, edge_du = 0, edge_v = 0,
                 edge_dv = 0\<rparr>,
               \<lparr>y_max = 2, edge_x = 0, edge_dx = 1, edge_u = 0, edge_du = 0, edge_v = 0,
                 edge_dv = 0\<rparr>]), 2, [- 2, - 2])"
  by (simp add: get_insert_filled_def int_of_double_def Let_def fun_eq_iff wrap32_def
      fl_sub_def fl_div_def round_binary64_values round_binary64_small round_binary64_zigzag)

lemma scan_bounds_from_above: "scan_bounds 4 [(0, - 2), (4, 2), (0, 2)] = (- 2, 2)"
  by (simp add: scan_bounds_def int_of_double_def)

text \<open>
  Claim C3 says that at every processed row \<open>y\<close> the active edge table holds exactly the
  non-horizontal edges with \<open>y_start \<le> y < y_max\<close>.  The code breaks it for an edge that
  starts above row \<open>0\<close>.  On a framebuffer of height \<open>4\<close> the triangle
  \<open>(0,-2), (4,2), (0,2)\<close> has two such edges, both with \<open>y_start = -2\<close> and
  \<open>y_max = 2\<close>: the build loop only skips edges with \<open>y_start \<ge> h\<close> or \<open>y_end < 0\<close>, and
  files these two under \<^verbatim>\<open>GET[-2]\<close>.  The sweep starts at row \<open>0\<close> with an empty table and
  only ever reads \<^verbatim>\<open>GET[y]\<close> for \<open>y\<close> in \<open>0..2\<close>, so at row \<open>0\<close> (where
  \<open>-2 \<le> 0 < 2\<close>) the table after insertion, removal and sorting is empty, and the
  call draws nothing although rows \<open>0\<close> and \<open>1\<close> cross the triangle.
\<close>

theorem C3_edges_from_above_are_never_active:
  "fold (get_insert_filled round_binary64 4 [(0, - 2), (4, 2), (0, 2)])
     [0..<length [(0, - 2), (4, 2), (0 :: real, 2 :: real)]] (\<lambda>_. [], 0, []) =
     ((\<lambda>_. [])
        (- 2 := [\<lparr>y_max = 2, edge_x = 0, edge_dx = 0, edge_u = 0, edge_du = 0, edge_v = 0,
                   edge_dv = 0\<rparr>,
                 \<lparr>y_max = 2, edge_x = 0, edge_dx = 1, edge_u = 0, edge_du = 0, edge_v = 0,
                   edge_dv = 0\<rparr>]), 2, [- 2, - 2])
   \<and> active_edges 2 0
       (((\<lambda>_. [])
          (- 2 := [\<lparr>y_max = 2, edge_x = 0, edge_dx = 0, edge_u = 0, edge_du = 0, edge_v = 0,
                     edge_dv = 0\<rparr>,
                   \<lparr>y_max = 2, edge_x = 0, edge_dx = 1, edge_u = 0, edge_du = 0, edge_v = 0,
                     edge_dv = 0\<rparr>])) (0 :: int)) [] = []
   \<and> draw_polygon_filled round_binary64 True \<lparr>shape0 = 4, shape1 = 4, cells = (\<lambda>_. 0), written = []\<rparr>
       [(0, - 2), (4, 2), (0, 2)] 0xFFFFFFFF =
     (\<lparr>shape0 = 4, shape1 = 4, cells = (\<lambda>_. 0), written = []\<rparr>, [- 2, - 2])"
  by (simp add: draw_polygon_filled_def Let_def get_insert_filled_from_above
      scan_bounds_from_above scan_row_filled_def active_edges_def aet_insert_def aet_remove_def
      for_range_def upto.simps wrap32_def)

section \<open>Stores outside the allocated memory\<close>




end
